theory Spec2Isabelle
  imports Main "HOL-Library.Word"
begin

unbundle bit_operations_syntax

section \<open>Data model of package crypto\<close>

type_synonym byte = "8 word"
type_synonym bytes = "byte list"

text \<open>
  A Go byte slice is modelled by its contents; the nil slice and the empty slice are both
  \<open>[]\<close> (length 0). \<open>Params\<close> holds Go \<open>int\<close> fields, kept as mathematical integers; the
  conversions \<open>uint32(x)\<close> and \<open>uint8(x)\<close> of the source are \<open>word_of_int\<close>.
\<close>

record Params =
  Params_T :: int
  Params_M :: int
  Params_P :: int
  Params_L :: int

record Key =
  Data :: bytes

definition passwordEntropy :: nat where "passwordEntropy = 60"
definition saltSize :: nat where "saltSize = 32"
definition keySize :: nat where "keySize = 32"
definition nonceSize :: nat where "nonceSize = 24"

definition DefaultParams :: Params where
  "DefaultParams = \<lparr>Params_T = 1, Params_M = 64 * 1024, Params_P = 4, Params_L = int keySize\<rparr>"

subsection \<open>Errors, panics and results\<close>

text \<open>
  The three sentinel errors of the package, \<open>pkgerr.Wrap cause message\<close>, \<open>fmt.Errorf\<close>,
  the error of \<open>rand.Read\<close>, and the two errors of package chacha20poly1305.
\<close>

datatype error =
    ErrInvalidSalt
  | ErrInvalidPassword
  | ErrInvalidRandomSize
  | Wrap error string
  | Errorf string
  | RandReadError string
  | ChaChaBadKeyLength
  | ChaChaOpenFailed

fun Error :: "error \<Rightarrow> string" where
  "Error ErrInvalidSalt = ''invalid salt''"
| "Error ErrInvalidPassword = ''invalid password''"
| "Error ErrInvalidRandomSize = ''cannot generate random array of zero length''"
| "Error (Wrap cause msg) = msg @ '': '' @ Error cause"
| "Error (Errorf msg) = msg"
| "Error (RandReadError msg) = msg"
| "Error ChaChaBadKeyLength = ''chacha20poly1305: bad key length''"
| "Error ChaChaOpenFailed = ''chacha20poly1305: message authentication failed''"

text \<open>
  A Go call either panics (with an error value or a text) or returns. A function with
  results \<open>(x, err)\<close> returns the pair; \<open>err = nil\<close> is \<open>None\<close>, a nil pointer is \<open>None\<close>.
\<close>

datatype panic = PanicError error | PanicText string

datatype 'a outcome = Panic panic | Return 'a

text \<open>\<open>fmt.Sprintf "%d"\<close> of a non-negative integer.\<close>

fun dec :: "nat \<Rightarrow> string" where
  "dec n = (if n < 10 then [char_of (48 + n)] else dec (n div 10) @ [char_of (48 + n mod 10)])"

declare dec.simps [simp del]

subsection \<open>The random source\<close>

text \<open>
  \<open>rand.Read buf\<close> either fails or fills all of \<open>buf\<close>. The source of randomness is an
  input of the model: it fails with a message, or it yields the byte stream that the one
  \<open>rand.Read\<close> of the call will deliver. On failure the buffer is left as \<open>make\<close> zeroed it.
\<close>

datatype rand_source = RandFails string | RandYields "nat \<Rightarrow> byte"

definition rand_Read :: "rand_source \<Rightarrow> nat \<Rightarrow> bytes \<times> error option" where
  "rand_Read src n =
     (case src of
        RandFails msg \<Rightarrow> (replicate n 0, Some (RandReadError msg))
      | RandYields f \<Rightarrow> (map f [0..<n], None))"

text \<open>Go's built-in \<open>copy dst src\<close>: the new contents of \<open>dst\<close>.\<close>

definition copy_go :: "bytes \<Rightarrow> bytes \<Rightarrow> bytes" where
  "copy_go dst src = (let n = min (length dst) (length src) in take n src @ drop n dst)"

section \<open>Key derivation\<close>

text \<open>
  The two library calls of \<open>NewIDKey\<close> are parameters: \<open>passwordvalidator.Validate\<close>
  (its error text, if any) and the Argon2id function. \<open>argon2.IDKey\<close> panics on a time
  or parallelism parameter below 1 before it computes anything.
\<close>

type_synonym validator = "string \<Rightarrow> nat \<Rightarrow> string option"
type_synonym kdf = "bytes \<Rightarrow> bytes \<Rightarrow> 32 word \<Rightarrow> 32 word \<Rightarrow> 8 word \<Rightarrow> 32 word \<Rightarrow> bytes"

definition argon2_IDKey ::
  "kdf \<Rightarrow> bytes \<Rightarrow> bytes \<Rightarrow> 32 word \<Rightarrow> 32 word \<Rightarrow> 8 word \<Rightarrow> 32 word \<Rightarrow> bytes outcome" where
  "argon2_IDKey f password salt time memory threads keyLen =
     (if time < 1 then Panic (PanicText ''argon2: number of rounds too small'')
      else if threads < 1 then Panic (PanicText ''argon2: parallelism degree too low'')
      else Return (f password salt time memory threads keyLen))"

definition bytes_of_string :: "string \<Rightarrow> bytes" where
  "bytes_of_string s = map of_char s"

definition NewIDKey ::
  "validator \<Rightarrow> kdf \<Rightarrow> Params \<Rightarrow> string \<Rightarrow> bytes \<Rightarrow> (Key option \<times> error option) outcome" where
  "NewIDKey validate f params password salt =
     (if length salt \<noteq> saltSize then
        Return (None, Some (Wrap ErrInvalidSalt
          (''expected len '' @ dec saltSize @ '' but got '' @ dec (length salt))))
      else
        (case validate password passwordEntropy of
           Some msg \<Rightarrow> Return (None, Some (Wrap ErrInvalidPassword msg))
         | None \<Rightarrow>
            (case argon2_IDKey f (bytes_of_string password) salt
                    (word_of_int (Params_T params)) (word_of_int (Params_M params))
                    (word_of_int (Params_P params)) (word_of_int (Params_L params)) of
               Panic p \<Rightarrow> Panic p
             | Return k \<Rightarrow> Return (Some \<lparr>Data = k\<rparr>, None))))"

definition validateSaltLen :: "bytes \<Rightarrow> unit outcome" where
  "validateSaltLen salt =
     (if length salt \<noteq> saltSize then
        Panic (PanicError (Wrap ErrInvalidSalt
          (''expected len '' @ dec saltSize @ '', got '' @ dec (length salt))))
      else Return ())"

text \<open>\<open>make([]byte, size)\<close> panics on a negative size.\<close>

definition NewRandom :: "rand_source \<Rightarrow> int \<Rightarrow> (bytes \<times> error option) outcome" where
  "NewRandom src n =
     (if n = 0 then Return ([], Some ErrInvalidRandomSize)
      else if n < 0 then Panic (PanicText ''runtime error: makeslice: len out of range'')
      else Return (rand_Read src (nat n)))"

text \<open>
  \<open>NewSessionKey\<close>: \<open>key = &Key{}\<close> has the nil slice as \<open>Data\<close>, and \<open>copy(key.Data[:], r)\<close>
  copies into that slice.
\<close>

definition NewSessionKey :: "rand_source \<Rightarrow> bytes \<Rightarrow> (Key option \<times> error option) outcome" where
  "NewSessionKey src salt =
     (case validateSaltLen salt of
        Panic p \<Rightarrow> Panic p
      | Return _ \<Rightarrow>
         (let key = \<lparr>Data = []\<rparr> in
          case NewRandom src (int keySize) of
            Panic p \<Rightarrow> Panic p
          | Return (r, err) \<Rightarrow>
             (case err of
                Some e \<Rightarrow> Return (Some key, Some e)
              | None \<Rightarrow> Return (Some (key\<lparr>Data := copy_go (Data key) r\<rparr>), None))))"

definition NewSalt :: "rand_source \<Rightarrow> bytes outcome" where
  "NewSalt src =
     (case NewRandom src (int saltSize) of
        Panic p \<Rightarrow> Panic p
      | Return (salt, err) \<Rightarrow>
         (case err of
            Some e \<Rightarrow> Panic (PanicError (Wrap ErrInvalidSalt (Error e)))
          | None \<Rightarrow>
             (case validateSaltLen salt of
                Panic p \<Rightarrow> Panic p
              | Return _ \<Rightarrow> Return salt)))"

section \<open>Authenticated encryption\<close>

subsection \<open>Package chacha20poly1305\<close>

text \<open>
  The XChaCha20-Poly1305 cipher of \<open>golang.org/x/crypto/chacha20poly1305\<close> is an input of
  the model: \<open>Seal_impl key nonce plaintext additionalData\<close> is the sealed body
  (ciphertext and tag) that \<open>Seal\<close> appends to \<open>dst\<close>, \<open>Open_impl key nonce ciphertext
  additionalData\<close> is the plaintext that \<open>Open\<close> appends to \<open>dst\<close>, or \<open>None\<close> where \<open>Open\<close>
  returns \<open>nil\<close> and its error; either call may panic. Both take the associated data as a
  byte slice and read nothing of it but its bytes.
\<close>

record xchacha =
  Seal_impl :: "bytes \<Rightarrow> bytes \<Rightarrow> bytes \<Rightarrow> bytes \<Rightarrow> bytes outcome"
  Open_impl :: "bytes \<Rightarrow> bytes \<Rightarrow> bytes \<Rightarrow> bytes \<Rightarrow> bytes option outcome"

definition KeySize :: nat where "KeySize = 32"
definition NonceSizeX :: nat where "NonceSizeX = 24"
definition Overhead :: nat where "Overhead = 16"

text \<open>\<open>NewX\<close> checks the key length and keeps a copy of the key.\<close>

definition NewX :: "bytes \<Rightarrow> error + bytes" where
  "NewX key = (if length key \<noteq> KeySize then Inl ChaChaBadKeyLength else Inr key)"

definition aead_Seal :: "xchacha \<Rightarrow> bytes \<Rightarrow> bytes \<Rightarrow> bytes \<Rightarrow> bytes \<Rightarrow> bytes \<Rightarrow> bytes outcome" where
  "aead_Seal X k dst nonce plaintext additionalData =
     (case Seal_impl X k nonce plaintext additionalData of
        Panic p \<Rightarrow> Panic p
      | Return body \<Rightarrow> Return (dst @ body))"

definition aead_Open ::
  "xchacha \<Rightarrow> bytes \<Rightarrow> bytes \<Rightarrow> bytes \<Rightarrow> bytes \<Rightarrow> bytes \<Rightarrow> (bytes \<times> error option) outcome" where
  "aead_Open X k dst nonce ciphertext additionalData =
     (case Open_impl X k nonce ciphertext additionalData of
        Panic p \<Rightarrow> Panic p
      | Return None \<Rightarrow> Return ([], Some ChaChaOpenFailed)
      | Return (Some plaintext) \<Rightarrow> Return (dst @ plaintext, None))"

subsection \<open>NewNonce, Encrypt, Decrypt\<close>

text \<open>
  \<open>make([]byte, nonceSize, nonceSize+ciphertextLen+overheadLen)\<close> panics when the capacity
  is below the length; the capacity has no other effect on the contents.
\<close>

definition NewNonce :: "rand_source \<Rightarrow> int \<Rightarrow> int \<Rightarrow> (bytes \<times> error option) outcome" where
  "NewNonce src ciphertextLen overheadLen =
     (if int nonceSize + ciphertextLen + overheadLen < int nonceSize then
        Panic (PanicText ''runtime error: makeslice: cap out of range'')
      else
        (case rand_Read src nonceSize of
           (nonce, Some e) \<Rightarrow> Return (nonce, Some e)
         | (nonce, None) \<Rightarrow>
            (let total = fold (\<lambda>x total. total OR x) nonce (0 :: byte) in
             if total > 0 then Return (nonce, None)
             else Return (nonce, Some (Errorf ''got invalid all-zero nonce'')))))"

text \<open>
  The associated data is a pointer to a slice: \<open>None\<close> is the nil pointer, for which the
  source passes the nil slice.
\<close>

definition Encrypt ::
  "xchacha \<Rightarrow> rand_source \<Rightarrow> Key \<Rightarrow> bytes \<Rightarrow> bytes option \<Rightarrow> (bytes \<times> error option) outcome" where
  "Encrypt X src key plaintext additionalData =
     (case NewX (Data key) of
        Inl e \<Rightarrow> Return ([], Some e)
      | Inr k \<Rightarrow>
         (case NewNonce src (int (length plaintext)) (int Overhead) of
            Panic p \<Rightarrow> Panic p
          | Return (nonce, Some e) \<Rightarrow> Return ([], Some e)
          | Return (nonce, None) \<Rightarrow>
             (case additionalData of
                None \<Rightarrow>
                  (case aead_Seal X k nonce nonce plaintext [] of
                     Panic p \<Rightarrow> Panic p
                   | Return encrypted \<Rightarrow> Return (encrypted, None))
              | Some ad \<Rightarrow>
                  (case aead_Seal X k nonce nonce plaintext ad of
                     Panic p \<Rightarrow> Panic p
                   | Return encrypted \<Rightarrow> Return (encrypted, None)))))"

definition Decrypt ::
  "xchacha \<Rightarrow> Key \<Rightarrow> bytes \<Rightarrow> bytes option \<Rightarrow> (bytes \<times> error option) outcome" where
  "Decrypt X key encrypted additionalData =
     (case NewX (Data key) of
        Inl e \<Rightarrow> Return ([], Some e)
      | Inr k \<Rightarrow>
         if length encrypted < NonceSizeX then
           Return ([], Some (Errorf ''ciphertext is too short''))
         else
           (let nonce = take NonceSizeX encrypted;
                ciphertext = drop NonceSizeX encrypted
            in case additionalData of
                 None \<Rightarrow> aead_Open X k [] nonce ciphertext []
               | Some ad \<Rightarrow> aead_Open X k [] nonce ciphertext ad))"

text \<open>The bytes that reach the cipher for an optional associated data.\<close>

definition ad_bytes :: "bytes option \<Rightarrow> bytes" where
  "ad_bytes additionalData = (case additionalData of None \<Rightarrow> [] | Some ad \<Rightarrow> ad)"

subsection \<open>What the theorems ask of the cipher\<close>

text \<open>
  The contract of \<open>cipher.AEAD\<close> that the theorems below rely on, each part on its own:
  \<open>Open\<close> inverts \<open>Seal\<close> under the same key, nonce and associated data; the sealed body is
  \<open>Overhead\<close> bytes longer than the plaintext; and, as an idealisation of authenticity in
  the symbolic style, a sealed body opens under no other associated data.
\<close>

definition aead_correct :: "xchacha \<Rightarrow> bool" where
  "aead_correct X \<longleftrightarrow>
     (\<forall>k nonce plaintext ad body.
        length k = KeySize \<and> length nonce = NonceSizeX \<and>
        Seal_impl X k nonce plaintext ad = Return body \<longrightarrow>
        Open_impl X k nonce body ad = Return (Some plaintext))"

definition aead_overhead :: "xchacha \<Rightarrow> bool" where
  "aead_overhead X \<longleftrightarrow>
     (\<forall>k nonce plaintext ad body.
        Seal_impl X k nonce plaintext ad = Return body \<longrightarrow>
        length body = length plaintext + Overhead)"


subsection \<open>XChaCha20-Poly1305\<close>

text \<open>
  The construction that the library implements (RFC 8439 with the HChaCha20 subkey and
  the 24-byte nonce), as an executable instance of \<open>xchacha\<close>.
\<close>

type_synonym u32 = "32 word"

definition rotl32 :: "u32 \<Rightarrow> nat \<Rightarrow> u32" where
  "rotl32 x n = push_bit n x OR drop_bit (32 - n) x"

definition quarterRound :: "nat \<Rightarrow> nat \<Rightarrow> nat \<Rightarrow> nat \<Rightarrow> u32 list \<Rightarrow> u32 list" where
  "quarterRound a b c d s0 =
     (let s1 = s0[a := s0 ! a + s0 ! b];
          s2 = s1[d := rotl32 (s1 ! d XOR s1 ! a) 16];
          s3 = s2[c := s2 ! c + s2 ! d];
          s4 = s3[b := rotl32 (s3 ! b XOR s3 ! c) 12];
          s5 = s4[a := s4 ! a + s4 ! b];
          s6 = s5[d := rotl32 (s5 ! d XOR s5 ! a) 8];
          s7 = s6[c := s6 ! c + s6 ! d]
      in s7[b := rotl32 (s7 ! b XOR s7 ! c) 7])"

definition doubleRound :: "u32 list \<Rightarrow> u32 list" where
  "doubleRound =
     quarterRound 3 4 9 14 \<circ> quarterRound 2 7 8 13 \<circ> quarterRound 1 6 11 12 \<circ>
     quarterRound 0 5 10 15 \<circ> quarterRound 3 7 11 15 \<circ> quarterRound 2 6 10 14 \<circ>
     quarterRound 1 5 9 13 \<circ> quarterRound 0 4 8 12"

definition le32 :: "bytes \<Rightarrow> u32" where
  "le32 bs = foldr (\<lambda>b w. ucast b OR push_bit 8 w) (take 4 bs) 0"

definition le_words :: "nat \<Rightarrow> bytes \<Rightarrow> u32 list" where
  "le_words n bs = map (\<lambda>i. le32 (drop (4 * i) bs)) [0..<n]"

definition le32_bytes :: "u32 \<Rightarrow> bytes" where
  "le32_bytes w = map (\<lambda>i. ucast (drop_bit (8 * i) w)) [0..<4]"

definition sigma :: "u32 list" where
  "sigma = [0x61707865, 0x3320646e, 0x79622d32, 0x6b206574]"

definition chacha20_block :: "bytes \<Rightarrow> u32 \<Rightarrow> bytes \<Rightarrow> bytes" where
  "chacha20_block key counter nonce =
     (let s0 = sigma @ le_words 8 key @ [counter] @ le_words 3 nonce;
          s = (doubleRound ^^ 10) s0
      in concat (map le32_bytes (map2 (+) s s0)))"

definition HChaCha20 :: "bytes \<Rightarrow> bytes \<Rightarrow> bytes" where
  "HChaCha20 key nonce =
     (let s = (doubleRound ^^ 10) (sigma @ le_words 8 key @ le_words 4 nonce)
      in concat (map le32_bytes (take 4 s @ drop 12 s)))"

definition keystream :: "bytes \<Rightarrow> bytes \<Rightarrow> nat \<Rightarrow> bytes" where
  "keystream key nonce n =
     take n (concat (map (\<lambda>i. chacha20_block key (of_nat (i + 1)) nonce) [0..<(n + 63) div 64]))"

definition chacha20_xor :: "bytes \<Rightarrow> bytes \<Rightarrow> bytes \<Rightarrow> bytes" where
  "chacha20_xor key nonce msg = map2 (XOR) msg (keystream key nonce (length msg))"

definition le_nat :: "bytes \<Rightarrow> nat" where
  "le_nat bs = foldr (\<lambda>b n. unat b + 256 * n) bs 0"

definition nat_le :: "nat \<Rightarrow> nat \<Rightarrow> bytes" where
  "nat_le k n = map (\<lambda>i. of_nat (n div 256 ^ i)) [0..<k]"

definition poly1305 :: "bytes \<Rightarrow> bytes \<Rightarrow> bytes" where
  "poly1305 key msg =
     (let r = le_nat (take 16 key) AND 0x0ffffffc0ffffffc0ffffffc0fffffff;
          s = le_nat (take 16 (drop 16 key));
          acc = foldl (\<lambda>acc i. ((acc + le_nat (take 16 (drop (16 * i) msg) @ [1])) * r) mod (2 ^ 130 - 5))
                  0 [0..<(length msg + 15) div 16]
      in nat_le 16 (acc + s))"

definition pad16 :: "bytes \<Rightarrow> bytes" where
  "pad16 x = replicate ((16 - length x mod 16) mod 16) 0"

definition mac_data :: "bytes \<Rightarrow> bytes \<Rightarrow> bytes" where
  "mac_data ad ct = ad @ pad16 ad @ ct @ pad16 ct @ nat_le 8 (length ad) @ nat_le 8 (length ct)"

definition chacha20poly1305_tag :: "bytes \<Rightarrow> bytes \<Rightarrow> bytes \<Rightarrow> bytes \<Rightarrow> bytes" where
  "chacha20poly1305_tag key nonce ad ct =
     poly1305 (take 32 (chacha20_block key 0 nonce)) (mac_data ad ct)"

definition chacha20poly1305_seal :: "bytes \<Rightarrow> bytes \<Rightarrow> bytes \<Rightarrow> bytes \<Rightarrow> bytes" where
  "chacha20poly1305_seal key nonce plaintext ad =
     (let ct = chacha20_xor key nonce plaintext in ct @ chacha20poly1305_tag key nonce ad ct)"

definition chacha20poly1305_open :: "bytes \<Rightarrow> bytes \<Rightarrow> bytes \<Rightarrow> bytes \<Rightarrow> bytes option" where
  "chacha20poly1305_open key nonce ciphertext ad =
     (let ct = take (length ciphertext - 16) ciphertext;
          tag = drop (length ciphertext - 16) ciphertext
      in if tag = chacha20poly1305_tag key nonce ad ct then Some (chacha20_xor key nonce ct) else None)"

text \<open>
  \<open>Seal\<close> and \<open>Open\<close> of the library's XChaCha20-Poly1305, with their panics on a nonce
  of the wrong length and on a message beyond the 32-bit block counter.
\<close>

definition xchacha20poly1305_Seal :: "bytes \<Rightarrow> bytes \<Rightarrow> bytes \<Rightarrow> bytes \<Rightarrow> bytes outcome" where
  "xchacha20poly1305_Seal key nonce plaintext ad =
     (if length nonce \<noteq> NonceSizeX then
        Panic (PanicText ''chacha20poly1305: bad nonce length passed to Seal'')
      else if length plaintext > 2 ^ 38 - 64 then
        Panic (PanicText ''chacha20poly1305: plaintext too large'')
      else Return (chacha20poly1305_seal (HChaCha20 key (take 16 nonce))
                     (replicate 4 0 @ drop 16 nonce) plaintext ad))"

definition xchacha20poly1305_Open :: "bytes \<Rightarrow> bytes \<Rightarrow> bytes \<Rightarrow> bytes \<Rightarrow> bytes option outcome" where
  "xchacha20poly1305_Open key nonce ciphertext ad =
     (if length nonce \<noteq> NonceSizeX then
        Panic (PanicText ''chacha20poly1305: bad nonce length passed to Open'')
      else if length ciphertext < 16 then Return None
      else if length ciphertext > 2 ^ 38 - 48 then
        Panic (PanicText ''chacha20poly1305: ciphertext too large'')
      else Return (chacha20poly1305_open (HChaCha20 key (take 16 nonce))
                     (replicate 4 0 @ drop 16 nonce) ciphertext ad))"

definition XChaCha20Poly1305 :: xchacha where
  "XChaCha20Poly1305 =
     \<lparr>Seal_impl = xchacha20poly1305_Seal, Open_impl = xchacha20poly1305_Open\<rparr>"

subsection \<open>An idealised cipher\<close>

text \<open>
  A cipher without collisions of tags: the sealed body carries the associated data in a
  self-delimiting frame in front of the plaintext, so no body opens under two associated
  datas. It shows that \<open>aead_binds\<close> can be met; a tag of fixed length cannot meet it for
  all associated datas.
\<close>

definition frame :: "bytes \<Rightarrow> bytes" where
  "frame ad = concat (map (\<lambda>x. [1, x]) ad) @ [0]"

definition framed_Seal :: "bytes \<Rightarrow> bytes \<Rightarrow> bytes \<Rightarrow> bytes \<Rightarrow> bytes outcome" where
  "framed_Seal key nonce plaintext ad = Return (frame ad @ plaintext)"

definition framed_Open :: "bytes \<Rightarrow> bytes \<Rightarrow> bytes \<Rightarrow> bytes \<Rightarrow> bytes option outcome" where
  "framed_Open key nonce body ad =
     Return (if take (length (frame ad)) body = frame ad
             then Some (drop (length (frame ad)) body) else None)"

definition Framed :: xchacha where
  "Framed = \<lparr>Seal_impl = framed_Seal, Open_impl = framed_Open\<rparr>"

subsection \<open>Sample inputs and the seal-then-open scenario\<close>

definition counting_stream :: "nat \<Rightarrow> byte" where
  "counting_stream i = of_nat (i + 1)"

text \<open>The scenario of the round-trip tests: \<open>Encrypt\<close>, then \<open>Decrypt\<close> of its result.\<close>

definition Encrypt_then_Decrypt ::
  "xchacha \<Rightarrow> rand_source \<Rightarrow> Key \<Rightarrow> bytes \<Rightarrow> bytes option \<Rightarrow> bytes option \<Rightarrow>
   (bytes \<times> error option) outcome" where
  "Encrypt_then_Decrypt X src key plaintext sealAD openAD =
     (case Encrypt X src key plaintext sealAD of
        Panic p \<Rightarrow> Panic p
      | Return (encrypted, Some e) \<Rightarrow> Return ([], Some e)
      | Return (encrypted, None) \<Rightarrow> Decrypt X key encrypted openAD)"

section \<open>Encrypt over buffers in memory\<close>

text \<open>
  To state what \<open>Encrypt\<close> writes, the slices are placed in a memory: a list of backing
  arrays, addressed by position, to which \<open>make\<close> appends a zeroed array. A slice is the
  header Go keeps: its array, the offset of its first element, its length and its
  capacity. \<open>Seal\<close> appends to \<open>dst\<close> as the library does: in place when the capacity
  of \<open>dst\<close> suffices, into a new array otherwise; it panics on an output that overlaps the
  plaintext other than exactly, or the associated data at all. \<open>Encrypt_mem\<close> is \<open>Encrypt\<close>
  statement by statement, over these.
\<close>

type_synonym memory = "bytes list"

record slice =
  slice_array :: nat
  slice_off :: nat
  slice_len :: nat
  slice_cap :: nat

definition nil_slice :: slice where
  "nil_slice = \<lparr>slice_array = 0, slice_off = 0, slice_len = 0, slice_cap = 0\<rparr>"

definition load :: "memory \<Rightarrow> slice \<Rightarrow> bytes" where
  "load m s =
     (if slice_array s < length m
      then take (slice_len s) (drop (slice_off s) (m ! slice_array s)) else [])"

definition store_at :: "memory \<Rightarrow> slice \<Rightarrow> nat \<Rightarrow> bytes \<Rightarrow> memory" where
  "store_at m s i bs =
     (if slice_array s < length m then
        m[slice_array s :=
            (let a = m ! slice_array s; j = slice_off s + i
             in take j a @ bs @ drop (j + length bs) a)]
      else m)"

definition make_slice :: "memory \<Rightarrow> nat \<Rightarrow> nat \<Rightarrow> memory \<times> slice" where
  "make_slice m n c =
     (m @ [replicate c 0],
      \<lparr>slice_array = length m, slice_off = 0, slice_len = n, slice_cap = c\<rparr>)"

text \<open>
  The aliasing tests of the library: \<open>AnyOverlap\<close> of two slices, and \<open>InexactOverlap\<close>,
  which extends both to their capacity and lets through two slices that start at the same
  element.
\<close>

definition AnyOverlap :: "slice \<Rightarrow> slice \<Rightarrow> bool" where
  "AnyOverlap x y \<longleftrightarrow>
     0 < slice_len x \<and> 0 < slice_len y \<and> slice_array x = slice_array y \<and>
     slice_off x < slice_off y + slice_len y \<and> slice_off y < slice_off x + slice_len x"

definition InexactOverlap :: "slice \<Rightarrow> slice \<Rightarrow> bool" where
  "InexactOverlap x y \<longleftrightarrow>
     slice_len x \<noteq> 0 \<and> slice_len y \<noteq> 0 \<and>
     (slice_array x, slice_off x) \<noteq> (slice_array y, slice_off y) \<and>
     AnyOverlap (x\<lparr>slice_len := slice_cap x\<rparr>) (y\<lparr>slice_len := slice_cap y\<rparr>)"

text \<open>
  \<open>sliceForAppend in n\<close>: the head is \<open>in\<close> extended by \<open>n\<close> elements, in place when the
  capacity allows and in a new array holding a copy of \<open>in\<close> otherwise; the tail is the
  extension.
\<close>

definition sliceForAppend :: "memory \<Rightarrow> slice \<Rightarrow> nat \<Rightarrow> memory \<times> slice \<times> slice" where
  "sliceForAppend m inp n =
     (let total = slice_len inp + n in
      case (if total \<le> slice_cap inp then (m, inp\<lparr>slice_len := total\<rparr>)
            else (case make_slice m total total of
                    (m1, head) \<Rightarrow> (store_at m1 head 0 (load m inp), head))) of
        (m1, head) \<Rightarrow>
          (m1, head,
           \<lparr>slice_array = slice_array head, slice_off = slice_off head + slice_len inp,
            slice_len = n, slice_cap = slice_cap head - slice_len inp\<rparr>))"

definition NewNonce_mem ::
  "rand_source \<Rightarrow> memory \<Rightarrow> int \<Rightarrow> int \<Rightarrow> memory \<times> (slice \<times> error option) outcome" where
  "NewNonce_mem src m ciphertextLen overheadLen =
     (if int nonceSize + ciphertextLen + overheadLen < int nonceSize then
        (m, Panic (PanicText ''runtime error: makeslice: cap out of range''))
      else
        (case make_slice m nonceSize (nat (int nonceSize + ciphertextLen + overheadLen)) of
           (m1, nonce) \<Rightarrow>
             (case rand_Read src (slice_len nonce) of
                (bs, Some e) \<Rightarrow> (m1, Return (nonce, Some e))
              | (bs, None) \<Rightarrow>
                 (let m2 = store_at m1 nonce 0 bs;
                      total = fold (\<lambda>x total. total OR x) (load m2 nonce) (0 :: byte)
                  in if total > 0 then (m2, Return (nonce, None))
                     else (m2, Return (nonce, Some (Errorf ''got invalid all-zero nonce'')))))))"

definition Seal_mem ::
  "xchacha \<Rightarrow> memory \<Rightarrow> bytes \<Rightarrow> slice \<Rightarrow> slice \<Rightarrow> slice \<Rightarrow> slice \<Rightarrow> memory \<times> slice outcome" where
  "Seal_mem X m k dst nonce plaintext ad =
     (case Seal_impl X k (load m nonce) (load m plaintext) (load m ad) of
        Panic p \<Rightarrow> (m, Panic p)
      | Return body \<Rightarrow>
         (case sliceForAppend m dst (length body) of
            (m1, ret, out) \<Rightarrow>
              if InexactOverlap out plaintext then
                (m1, Panic (PanicText ''chacha20poly1305: invalid buffer overlap''))
              else if AnyOverlap out ad then
                (m1, Panic (PanicText
                  ''chacha20poly1305: invalid buffer overlap of output and additional data''))
              else (store_at m1 out 0 body, Return ret)))"

definition Encrypt_mem ::
  "xchacha \<Rightarrow> rand_source \<Rightarrow> memory \<Rightarrow> slice \<Rightarrow> slice \<Rightarrow> slice option \<Rightarrow>
   memory \<times> (slice \<times> error option) outcome" where
  "Encrypt_mem X src m keyData plaintext additionalData =
     (case NewX (load m keyData) of
        Inl e \<Rightarrow> (m, Return (nil_slice, Some e))
      | Inr k \<Rightarrow>
         (case NewNonce_mem src m (int (slice_len plaintext)) (int Overhead) of
            (m1, Panic p) \<Rightarrow> (m1, Panic p)
          | (m1, Return (nonce, Some e)) \<Rightarrow> (m1, Return (nil_slice, Some e))
          | (m1, Return (nonce, None)) \<Rightarrow>
             (case additionalData of
                None \<Rightarrow>
                  (case Seal_mem X m1 k nonce nonce plaintext nil_slice of
                     (m2, Panic p) \<Rightarrow> (m2, Panic p)
                   | (m2, Return encrypted) \<Rightarrow> (m2, Return (encrypted, None)))
              | Some ad \<Rightarrow>
                  (case Seal_mem X m1 k nonce nonce plaintext ad of
                     (m2, Panic p) \<Rightarrow> (m2, Panic p)
                   | (m2, Return encrypted) \<Rightarrow> (m2, Return (encrypted, None))))))"

section \<open>Properties\<close>

subsection \<open>The two ciphers meet the contract\<close>

lemma length_quarterRound [simp]: "length (quarterRound a b c d s) = length s"
  by (simp add: quarterRound_def Let_def)

lemma length_doubleRound [simp]: "length (doubleRound s) = length s"
  by (simp add: doubleRound_def)

lemma length_rounds [simp]: "length ((doubleRound ^^ n) s) = length s"
  by (induction n) simp_all

lemma length_le_words [simp]: "length (le_words n bs) = n"
  by (simp add: le_words_def)

lemma length_le32_bytes [simp]: "length (le32_bytes w) = 4"
  by (simp add: le32_bytes_def)

lemma length_concat_le32: "length (concat (map le32_bytes ws)) = 4 * length ws"
  by (induction ws) simp_all

lemma length_chacha20_block [simp]: "length (chacha20_block key counter nonce) = 64"
  unfolding chacha20_block_def Let_def length_concat_le32
  by (simp add: sigma_def)

lemma length_blocks:
  "length (concat (map (\<lambda>i. chacha20_block key (f i) nonce) is)) = 64 * length is"
  by (induction "is") simp_all

lemma length_keystream [simp]: "length (keystream key nonce n) = n"
proof -
  have "n \<le> 64 * ((n + 63) div 64)" by arith
  then show ?thesis by (simp add: keystream_def length_blocks)
qed

lemma length_chacha20_xor [simp]: "length (chacha20_xor key nonce msg) = length msg"
  by (simp add: chacha20_xor_def)

lemma map2_xor_twice:
  "length ks = length msg \<Longrightarrow> map2 (XOR) (map2 (XOR) msg ks) ks = (msg :: bytes)"
proof (induction msg arbitrary: ks)
  case Nil
  then show ?case by simp
next
  case (Cons x xs)
  then obtain k ks' where "ks = k # ks'" by (cases ks) auto
  with Cons show ?case by (simp add: xor.assoc)
qed

lemma chacha20_xor_twice [simp]:
  "chacha20_xor key nonce (chacha20_xor key nonce msg) = msg"
  by (simp add: chacha20_xor_def map2_xor_twice)

lemma length_nat_le [simp]: "length (nat_le k n) = k"
  by (simp add: nat_le_def)

lemma length_poly1305 [simp]: "length (poly1305 key msg) = 16"
  by (simp add: poly1305_def Let_def)

lemma length_tag [simp]: "length (chacha20poly1305_tag key nonce ad ct) = 16"
  by (simp add: chacha20poly1305_tag_def)

lemma length_seal [simp]:
  "length (chacha20poly1305_seal key nonce plaintext ad) = length plaintext + 16"
  by (simp add: chacha20poly1305_seal_def Let_def)

lemma open_seal [simp]:
  "chacha20poly1305_open key nonce (chacha20poly1305_seal key nonce plaintext ad) ad = Some plaintext"
  by (simp add: chacha20poly1305_open_def chacha20poly1305_seal_def Let_def)

lemma XChaCha20Poly1305_correct: "aead_correct XChaCha20Poly1305"
  by (auto simp add: aead_correct_def XChaCha20Poly1305_def xchacha20poly1305_Seal_def
      xchacha20poly1305_Open_def split: if_splits)

lemma XChaCha20Poly1305_overhead: "aead_overhead XChaCha20Poly1305"
  by (auto simp add: aead_overhead_def XChaCha20Poly1305_def xchacha20poly1305_Seal_def
      Overhead_def split: if_splits)

lemma frame_Cons: "frame (x # ad) = 1 # x # frame ad"
  by (simp add: frame_def)

lemma frame_Nil: "frame [] = [0]"
  by (simp add: frame_def)

lemma length_frame: "length (frame ad) = 2 * length ad + 1"
  by (induction ad) (simp_all add: frame_Cons frame_Nil)


lemma Framed_correct: "aead_correct Framed"
  by (simp add: aead_correct_def Framed_def framed_Seal_def framed_Open_def)


subsection \<open>How Encrypt and Decrypt run\<close>

lemma dec_0: "dec 0 = ''0''"
  by code_simp

lemma dec_31: "dec 31 = ''31''"
  by code_simp

lemma dec_32: "dec 32 = ''32''"
  by code_simp

lemma length_rand_Read [simp]: "length (fst (rand_Read src n)) = n"
  by (simp add: rand_Read_def split: rand_source.splits)

lemma fold_OR_zero:
  "fold (\<lambda>x total. total OR x) xs (a :: byte) = 0 \<longleftrightarrow> a = 0 \<and> (\<forall>x \<in> set xs. x = 0)"
  by (induction xs arbitrary: a) (auto simp add: or_eq_0_iff)

lemma NewNonce_Return:
  "NewNonce src (int n) (int Overhead) = Return (nonce, None) \<longleftrightarrow>
     rand_Read src nonceSize = (nonce, None) \<and> (\<exists>x \<in> set nonce. x \<noteq> 0)"
  by (auto simp add: NewNonce_def Let_def fold_OR_zero word_greater_zero_iff
      split: prod.splits option.splits)

lemma NewNonce_no_panic: "NewNonce src (int n) (int Overhead) \<noteq> Panic p"
  by (simp add: NewNonce_def Let_def split: prod.splits option.splits)

lemma Encrypt_Return:
  "Encrypt X src key plaintext ad = Return (encrypted, None) \<longleftrightarrow>
     length (Data key) = KeySize \<and>
     (\<exists>nonce body. NewNonce src (int (length plaintext)) (int Overhead) = Return (nonce, None) \<and>
        Seal_impl X (Data key) nonce plaintext (ad_bytes ad) = Return body \<and>
        encrypted = nonce @ body)"
  by (auto simp add: Encrypt_def NewX_def aead_Seal_def ad_bytes_def
      split: outcome.splits option.splits prod.splits)

lemma Decrypt_sealed:
  assumes "length (Data key) = KeySize" and "length nonce = NonceSizeX"
  shows "Decrypt X key (nonce @ body) ad = aead_Open X (Data key) [] nonce body (ad_bytes ad)"
  using assms by (simp add: Decrypt_def NewX_def ad_bytes_def Let_def split: option.splits)

lemma nonce_length:
  "NewNonce src (int n) (int Overhead) = Return (nonce, e) \<Longrightarrow> length nonce = NonceSizeX"
proof -
  assume "NewNonce src (int n) (int Overhead) = Return (nonce, e)"
  then have "nonce = fst (rand_Read src nonceSize)"
    by (auto simp add: NewNonce_def Let_def split: prod.splits option.splits if_splits)
  then show ?thesis by (simp add: nonceSize_def NonceSizeX_def)
qed

lemma Decrypt_of_Encrypt:
  assumes "aead_correct X"
    and "Encrypt X src key plaintext sealAD = Return (encrypted, None)"
    and "ad_bytes openAD = ad_bytes sealAD"
  shows "Decrypt X key encrypted openAD = Return (plaintext, None)"
proof -
  from assms(2) obtain nonce body where k: "length (Data key) = KeySize"
    and n: "NewNonce src (int (length plaintext)) (int Overhead) = Return (nonce, None)"
    and s: "Seal_impl X (Data key) nonce plaintext (ad_bytes sealAD) = Return body"
    and e: "encrypted = nonce @ body"
    unfolding Encrypt_Return by blast
  from n have ln: "length nonce = NonceSizeX" by (rule nonce_length)
  from assms(1) k ln s have "Open_impl X (Data key) nonce body (ad_bytes sealAD) = Return (Some plaintext)"
    unfolding aead_correct_def by blast
  then have "aead_Open X (Data key) [] nonce body (ad_bytes openAD) = Return (plaintext, None)"
    by (simp add: aead_Open_def assms(3))
  with k ln e show ?thesis by (simp add: Decrypt_sealed)
qed



lemma Encrypt_XChaCha:
  assumes "length (Data key) = 32" and "\<exists>i < 24. f i \<noteq> 0" and "length plaintext \<le> 2 ^ 38 - 64"
  shows "Encrypt XChaCha20Poly1305 (RandYields f) key plaintext ad =
           Return (map f [0..<24] @
                   chacha20poly1305_seal (HChaCha20 (Data key) (map f [0..<16]))
                     (replicate 4 0 @ map f [16..<24]) plaintext (ad_bytes ad), None)"
proof -
  have "NewNonce (RandYields f) (int (length plaintext)) (int Overhead) = Return (map f [0..<24], None)"
    using assms(2) by (auto simp add: NewNonce_Return rand_Read_def nonceSize_def)
  moreover have "Seal_impl XChaCha20Poly1305 (Data key) (map f [0..<24]) plaintext (ad_bytes ad)
      = Return (chacha20poly1305_seal (HChaCha20 (Data key) (map f [0..<16]))
                     (replicate 4 0 @ map f [16..<24]) plaintext (ad_bytes ad))"
    using assms(3)
    by (simp add: XChaCha20Poly1305_def xchacha20poly1305_Seal_def NonceSizeX_def take_map drop_map)
  ultimately show ?thesis
    using assms(1) by (simp add: Encrypt_Return KeySize_def)
qed

lemma counting_stream_nonzero: "\<exists>i < 24. counting_stream i \<noteq> 0"
  by (rule exI [of _ 0]) (simp add: counting_stream_def)


lemma length_hello: "length (bytes_of_string ''hello world'') = 11"
  by (simp add: bytes_of_string_def)

lemmas Encrypt_sample =
  Encrypt_XChaCha [where key = "\<lparr>Data = replicate 32 1\<rparr>" and f = counting_stream
    and plaintext = "bytes_of_string ''hello world''", simplified length_hello,
    OF _ counting_stream_nonzero]

section \<open>The claims\<close>

subsection \<open>Key derivation\<close>

lemma NewSessionKey_valid_salt:
  "length salt = saltSize \<Longrightarrow>
   NewSessionKey src salt =
     (case src of
        RandFails msg \<Rightarrow> Return (Some \<lparr>Data = []\<rparr>, Some (RandReadError msg))
      | RandYields f \<Rightarrow> Return (Some \<lparr>Data = []\<rparr>, None))"
  by (simp add: NewSessionKey_def validateSaltLen_def keySize_def NewRandom_def rand_Read_def
      copy_go_def split: rand_source.splits)

text \<open>
  C2. Claim: for every salt of length 32, when the random source succeeds, \<open>NewSessionKey\<close>
  returns a key whose \<open>Data\<close> is the 32 fresh random bytes. The code does not: the
  destination of \<open>copy\<close> is the nil slice of the fresh \<open>Key\<close>, so nothing is copied and the
  returned key is empty. Evaluated at a salt of 32 zero bytes and a random source that
  yields 1, 2, 3, ...
\<close>

theorem NewSessionKey_empty_key:
  "NewSessionKey (RandYields counting_stream) (replicate 32 0) = Return (Some \<lparr>Data = []\<rparr>, None)"
  by (simp add: NewSessionKey_valid_salt saltSize_def)

text \<open>
  C4, as stated: for a salt whose length is not 32, \<open>NewSessionKey\<close> returns an
  \<open>ErrInvalidSalt\<close> error value and does not abort. At the empty salt the call does not
  return: \<open>validateSaltLen\<close> panics.
\<close>

theorem NewSessionKey_bad_salt_counterexample:
  "NewSessionKey (RandYields counting_stream) []
     = Panic (PanicError (Wrap ErrInvalidSalt ''expected len 32, got 0''))"
  by (simp add: NewSessionKey_def validateSaltLen_def dec_32 dec_0 saltSize_def)

text \<open>
  C4, amended: for every salt whose length is not 32 and every random source,
  \<open>NewSessionKey\<close> panics with \<open>ErrInvalidSalt\<close> wrapped in a message that carries the expected
  and the actual length; it returns neither a key nor an error value, and draws no random
  bytes.
\<close>

theorem NewSessionKey_panics:
  assumes "length salt \<noteq> 32"
  shows "NewSessionKey src salt
     = Panic (PanicError (Wrap ErrInvalidSalt (''expected len 32, got '' @ dec (length salt))))"
  using assms by (simp add: NewSessionKey_def validateSaltLen_def dec_32 saltSize_def)

theorem NewSessionKey_panics_witness:
  "length (replicate 31 (0 :: byte)) \<noteq> 32 \<and>
   NewSessionKey (RandFails ''entropy'') (replicate 31 0)
     = Panic (PanicError (Wrap ErrInvalidSalt ''expected len 32, got 31''))"
  using NewSessionKey_panics [of "replicate 31 0" "RandFails ''entropy''"]
  by (simp add: dec_31)



text \<open>
  C6. For every password, every params, every password validator and every salt whose
  length is not 32, \<open>NewIDKey\<close> returns no key and \<open>ErrInvalidSalt\<close> wrapped with the expected
  and actual lengths: the salt is checked before the password, so the password never
  changes the error.
\<close>

theorem NewIDKey_invalid_salt:
  assumes "length salt \<noteq> 32"
  shows "NewIDKey validate f params password salt
     = Return (None, Some (Wrap ErrInvalidSalt
         (''expected len 32 but got '' @ dec (length salt))))"
  using assms by (simp add: NewIDKey_def dec_32 saltSize_def)

theorem NewIDKey_invalid_salt_witness:
  "length ([] :: bytes) \<noteq> 32 \<and>
   NewIDKey (\<lambda>password minEntropy. Some ''insecure password, try including more special characters'')
     (\<lambda>password salt t m p l. take (unat l) (salt @ password)) DefaultParams ''password'' []
     = Return (None, Some (Wrap ErrInvalidSalt ''expected len 32 but got 0''))"
  using NewIDKey_invalid_salt [of "[]"
      "\<lambda>password minEntropy. Some ''insecure password, try including more special characters''"
      "\<lambda>password salt t m p l. take (unat l) (salt @ password)" DefaultParams "''password''"]
  by (simp add: dec_0)

subsection \<open>Encrypt and Decrypt\<close>

text \<open>
  C1. Round trip: for every key, plaintext and associated data (absent, empty or not),
  whenever \<open>Encrypt\<close> returns a ciphertext, \<open>Decrypt\<close> of that ciphertext under the same key
  and associated data returns exactly the plaintext and no error. The cipher is any one
  whose \<open>Open\<close> inverts its \<open>Seal\<close>.
\<close>

theorem Encrypt_Decrypt_roundtrip:
  assumes "aead_correct X"
    and "Encrypt X src key plaintext ad = Return (encrypted, None)"
  shows "Decrypt X key encrypted ad = Return (plaintext, None)"
  using assms by (rule Decrypt_of_Encrypt) simp

theorem Encrypt_Decrypt_roundtrip_witness:
  "aead_correct XChaCha20Poly1305 \<and>
   Encrypt_then_Decrypt XChaCha20Poly1305 (RandYields counting_stream) \<lparr>Data = replicate 32 1\<rparr>
     (bytes_of_string ''hello world'') None None
   = Return (bytes_of_string ''hello world'', None)"
proof -
  have e: "Encrypt XChaCha20Poly1305 (RandYields counting_stream) \<lparr>Data = replicate 32 1\<rparr>
       (bytes_of_string ''hello world'') None
     = Return (map counting_stream [0..<24] @
         chacha20poly1305_seal (HChaCha20 (replicate 32 1) (map counting_stream [0..<16]))
           (replicate 4 0 @ map counting_stream [16..<24]) (bytes_of_string ''hello world'') [], None)"
    using Encrypt_sample [of None] by (simp add: ad_bytes_def)
  from Encrypt_Decrypt_roundtrip [OF XChaCha20Poly1305_correct e] e show ?thesis
    by (simp add: Encrypt_then_Decrypt_def XChaCha20Poly1305_correct)
qed




text \<open>
  C7. A successful \<open>Encrypt\<close> (which needs a 32-byte key) returns the 24 bytes of the nonce
  as drawn from the random source, followed by the sealed body; with the cipher's overhead
  of 16 the total length is 24 + length plaintext + 16. For \<open>hello world\<close> without
  associated data that is 51 bytes.
\<close>

theorem Encrypt_layout:
  assumes "aead_overhead X"
    and "Encrypt X src key plaintext ad = Return (encrypted, None)"
  shows "length (Data key) = 32 \<and>
         length encrypted = 24 + length plaintext + 16 \<and>
         take 24 encrypted = fst (rand_Read src 24) \<and>
         Seal_impl X (Data key) (take 24 encrypted) plaintext (ad_bytes ad) = Return (drop 24 encrypted)"
proof -
  from assms(2) obtain nonce body where k: "length (Data key) = KeySize"
    and n: "NewNonce src (int (length plaintext)) (int Overhead) = Return (nonce, None)"
    and s: "Seal_impl X (Data key) nonce plaintext (ad_bytes ad) = Return body"
    and e: "encrypted = nonce @ body"
    unfolding Encrypt_Return by blast
  from n have ln: "length nonce = 24" using nonce_length by (simp add: NonceSizeX_def)
  from n have r: "nonce = fst (rand_Read src 24)" by (simp add: NewNonce_Return nonceSize_def)
  from assms(1) s have "length body = length plaintext + 16"
    unfolding aead_overhead_def Overhead_def by blast
  with k ln r s e show ?thesis by (simp add: KeySize_def)
qed

theorem Encrypt_layout_witness:
  "aead_overhead XChaCha20Poly1305 \<and>
   (case Encrypt XChaCha20Poly1305 (RandYields counting_stream) \<lparr>Data = replicate 32 1\<rparr>
           (bytes_of_string ''hello world'') None of
      Return (encrypted, None) \<Rightarrow>
        length encrypted = 51 \<and>
        take 24 encrypted = [1, 2, 3, 4, 5, 6, 7, 8, 9, 10, 11, 12, 13, 14, 15, 16, 17, 18, 19,
                             20, 21, 22, 23, 24]
    | _ \<Rightarrow> False)"
proof -
  have e: "Encrypt XChaCha20Poly1305 (RandYields counting_stream) \<lparr>Data = replicate 32 1\<rparr>
       (bytes_of_string ''hello world'') None
     = Return (map counting_stream [0..<24] @
         chacha20poly1305_seal (HChaCha20 (replicate 32 1) (map counting_stream [0..<16]))
           (replicate 4 0 @ map counting_stream [16..<24]) (bytes_of_string ''hello world'') [], None)"
    using Encrypt_sample [of None] by (simp add: ad_bytes_def)
  have c: "fst (rand_Read (RandYields counting_stream) 24)
      = [1, 2, 3, 4, 5, 6, 7, 8, 9, 10, 11, 12, 13, 14, 15, 16, 17, 18, 19, 20, 21, 22, 23, 24]"
    unfolding rand_Read_def by code_simp
  from Encrypt_layout [OF XChaCha20Poly1305_overhead e] show ?thesis
    unfolding e c by (simp add: XChaCha20Poly1305_overhead length_hello)
qed

text \<open>
  C8. For every 32-byte key and every input shorter than 24 bytes, \<open>Decrypt\<close> returns the
  too-short error; and whenever \<open>Decrypt\<close> returns an error, of either kind, the bytes it
  returns with it are none.
\<close>

theorem Decrypt_fails_closed:
  "(length (Data key) = 32 \<and> length encrypted < 24 \<longrightarrow>
      Decrypt X key encrypted ad = Return ([], Some (Errorf ''ciphertext is too short''))) \<and>
   (Decrypt X key encrypted ad = Return (decrypted, Some e) \<longrightarrow> decrypted = [])"
  by (auto simp add: Decrypt_def NewX_def KeySize_def NonceSizeX_def aead_Open_def Let_def
      split: if_splits option.splits outcome.splits sum.splits)

theorem Decrypt_fails_closed_witness:
  "length (Data \<lparr>Data = replicate 32 1\<rparr>) = 32 \<and> length [1, 2, 3 :: byte] < 24 \<and>
   Decrypt XChaCha20Poly1305 \<lparr>Data = replicate 32 1\<rparr> [1, 2, 3] None
     = Return ([], Some (Errorf ''ciphertext is too short'')) \<and>
   Decrypt XChaCha20Poly1305 \<lparr>Data = replicate 32 1\<rparr> (replicate 24 1 @ [9]) (Some [])
     = Return ([], Some ChaChaOpenFailed)"
proof -
  have a: "Decrypt XChaCha20Poly1305 \<lparr>Data = replicate 32 1\<rparr> (replicate 24 1 @ [9]) (Some [])
      = Return ([], Some ChaChaOpenFailed)"
    by (simp add: Decrypt_def NewX_def KeySize_def NonceSizeX_def aead_Open_def
        XChaCha20Poly1305_def xchacha20poly1305_Open_def)
  from Decrypt_fails_closed [of "\<lparr>Data = replicate 32 1\<rparr>" "[1, 2, 3]" XChaCha20Poly1305 None "[]"
      "Errorf ''ciphertext is too short''"] a
  show ?thesis by simp
qed

text \<open>
  C10. For every key whose \<open>Data\<close> is not exactly 32 bytes long (the empty one included),
  \<open>Encrypt\<close> and \<open>Decrypt\<close> both return the cipher's bad-key-length error and no bytes,
  whatever the plaintext, ciphertext, associated data and random source: neither panics,
  and neither gets as far as the nonce or the input.
\<close>

theorem bad_key_length:
  assumes "length (Data key) \<noteq> 32"
  shows "Encrypt X src key plaintext ad = Return ([], Some ChaChaBadKeyLength) \<and>
         Decrypt X key encrypted ad = Return ([], Some ChaChaBadKeyLength)"
  using assms by (simp add: Encrypt_def Decrypt_def NewX_def KeySize_def)

theorem bad_key_length_witness:
  "length (Data \<lparr>Data = []\<rparr>) \<noteq> 32 \<and>
   Encrypt XChaCha20Poly1305 (RandYields counting_stream) \<lparr>Data = []\<rparr>
     (bytes_of_string ''hello world'') None = Return ([], Some ChaChaBadKeyLength) \<and>
   Decrypt XChaCha20Poly1305 \<lparr>Data = []\<rparr> (replicate 51 0) None
     = Return ([], Some ChaChaBadKeyLength)"
  using bad_key_length [of "\<lparr>Data = []\<rparr>" XChaCha20Poly1305 "RandYields counting_stream"
      "bytes_of_string ''hello world''" None "replicate 51 0"]
  by simp

subsection \<open>Encrypt in memory\<close>

lemma take_store_at: "n \<le> slice_array s \<Longrightarrow> take n (store_at m s i bs) = take n m"
  by (simp add: store_at_def)

lemma length_store_at [simp]: "length (store_at m s i bs) = length m"
  by (simp add: store_at_def)

lemma NewNonce_mem_frame:
  assumes "NewNonce_mem src m c v = (m1, r)"
  shows "take (length m) m1 = m"
    and "r = Return (nonce, e) \<Longrightarrow> slice_array nonce = length m \<and> length m1 = Suc (length m)"
  using assms
  by (auto simp add: NewNonce_mem_def make_slice_def Let_def take_store_at
      split: if_splits prod.splits option.splits)

lemma Seal_mem_frame:
  assumes "Seal_mem X m k dst nonce plaintext ad = (m2, r)" and "n \<le> slice_array dst" and "n \<le> length m"
  shows "take n m2 = take n m"
    and "r = Return encrypted \<Longrightarrow> n \<le> slice_array encrypted"
  using assms
  by (auto simp add: Seal_mem_def sliceForAppend_def make_slice_def Let_def take_store_at
      split: if_splits prod.splits outcome.splits)

lemma Encrypt_mem_frame:
  "take (length m) (fst (Encrypt_mem X src m keyData plaintext ad)) = m \<and>
   (snd (Encrypt_mem X src m keyData plaintext ad) = Return (encrypted, None) \<longrightarrow>
      length m \<le> slice_array encrypted)"
proof (cases "NewX (load m keyData)")
  case (Inl e)
  then show ?thesis by (simp add: Encrypt_mem_def)
next
  case (Inr k)
  obtain m1 r where n: "NewNonce_mem src m (int (slice_len plaintext)) (int Overhead) = (m1, r)"
    by (cases "NewNonce_mem src m (int (slice_len plaintext)) (int Overhead)")
  note f1 = NewNonce_mem_frame [OF n]
  show ?thesis
  proof (cases r)
    case (Panic p)
    with Inr n f1 show ?thesis by (simp add: Encrypt_mem_def)
  next
    case (Return ne)
    obtain nonce e where ne: "ne = (nonce, e)" by (cases ne)
    show ?thesis
    proof (cases e)
      case (Some err)
      with Inr n f1 Return ne show ?thesis by (simp add: Encrypt_mem_def)
    next
      case None
      from f1(2) Return ne have a: "slice_array nonce = length m" and l: "length m1 = Suc (length m)"
        by simp_all
      define adS where "adS = (case ad of None \<Rightarrow> nil_slice | Some s \<Rightarrow> s)"
      obtain m2 r2 where s: "Seal_mem X m1 k nonce nonce plaintext adS = (m2, r2)"
        by (cases "Seal_mem X m1 k nonce nonce plaintext adS")
      have le: "length m \<le> slice_array nonce" "length m \<le> length m1" using a l by simp_all
      note f2 = Seal_mem_frame [OF s le]
      have E: "Encrypt_mem X src m keyData plaintext ad =
          (case r2 of Panic p \<Rightarrow> (m2, Panic p) | Return encrypted \<Rightarrow> (m2, Return (encrypted, None)))"
        using Inr n Return ne None s
        by (simp add: Encrypt_mem_def adS_def split: option.splits)
      from f2 f1(1) show ?thesis
        unfolding E by (cases r2) auto
    qed
  qed
qed

lemma load_preserved:
  assumes "take (length m) m' = m" and "slice_array s < length m"
  shows "load m' s = load m s"
proof -
  have "length (take (length m) m') = length m"
    using assms(1) by simp
  then have "length m \<le> length m'"
    by simp
  moreover from assms have "m' ! slice_array s = m ! slice_array s"
    by (metis nth_take)
  ultimately show ?thesis using assms(2) by (simp add: load_def)
qed

text \<open>The memory model computes what \<open>Encrypt\<close> computes on the contents.\<close>

lemma load_append_old: "slice_array s < length m \<Longrightarrow> load (m @ xs) s = load m s"
  by (simp add: load_def nth_append)

lemma load_nil [simp]: "load m nil_slice = []"
  by (simp add: load_def nil_slice_def)

lemma NewNonce_mem_refines:
  assumes "NewNonce_mem src m c v = (m1, r)"
  shows "(case r of Panic p \<Rightarrow> NewNonce src c v = Panic p
          | Return (s, e) \<Rightarrow>
              (\<exists>nb. NewNonce src c v = Return (nb, e) \<and>
              s = \<lparr>slice_array = length m, slice_off = 0, slice_len = 24,
                   slice_cap = 24 + nat (c + v)\<rparr> \<and>
              0 \<le> c + v \<and>
              m1 = m @ [nb @ replicate (nat (c + v)) 0]))"
proof (cases "int nonceSize + c + v < int nonceSize")
  case True
  with assms show ?thesis by (auto simp add: NewNonce_mem_def NewNonce_def)
next
  case False
  then have cv: "0 \<le> c + v" by simp
  then have r': "nat (24 + c + v) = 24 + nat (c + v)"
    by simp
  show ?thesis
  proof (cases src)
    case (RandFails msg)
    with assms False cv show ?thesis
      by (auto simp add: NewNonce_mem_def NewNonce_def make_slice_def rand_Read_def nonceSize_def
          load_def r' replicate_add)
  next
    case (RandYields f)
    with assms False cv show ?thesis
      by (auto simp add: NewNonce_mem_def NewNonce_def make_slice_def rand_Read_def nonceSize_def
          load_def store_at_def Let_def r' replicate_add split: if_splits)
  qed
qed

lemma Seal_mem_refines:
  assumes "slice_array plaintext < length m" and "slice_array ad < length m \<or> ad = nil_slice"
    and "length nb = 24"
    and "Seal_mem X (m @ [nb @ replicate z 0]) k
           \<lparr>slice_array = length m, slice_off = 0, slice_len = 24, slice_cap = 24 + z\<rparr>
           \<lparr>slice_array = length m, slice_off = 0, slice_len = 24, slice_cap = 24 + z\<rparr>
           plaintext ad = (m2, r)"
  shows "(case r of Panic p \<Rightarrow> Panic p | Return s \<Rightarrow> Return (load m2 s))
         = aead_Seal X k nb nb (load m plaintext) (load m ad)"
proof -
  let ?m1 = "m @ [nb @ replicate z 0]"
  let ?n = "\<lparr>slice_array = length m, slice_off = 0, slice_len = 24, slice_cap = 24 + z\<rparr>"
  have ln: "load ?m1 ?n = nb" using assms(3) by (simp add: load_def)
  have lp: "load ?m1 plaintext = load m plaintext" using assms(1) by (rule load_append_old)
  have la: "load ?m1 ad = load m ad"
    using assms(2) by (auto simp add: load_append_old)
  have no: "\<not> InexactOverlap x plaintext" if "length m \<le> slice_array x" for x
    using assms(1) that by (simp add: InexactOverlap_def AnyOverlap_def)
  have no': "\<not> AnyOverlap x ad" if "length m \<le> slice_array x" for x
    using assms(2) that by (auto simp add: AnyOverlap_def nil_slice_def)
  show ?thesis
  proof (cases "Seal_impl X k nb (load m plaintext) (load m ad)")
    case (Panic p)
    with assms(4) ln lp la show ?thesis by (auto simp add: Seal_mem_def aead_Seal_def)
  next
    case (Return body)
    show ?thesis
    proof (cases "24 + length body \<le> 24 + z")
      case True
      with assms(4) ln lp la Return no no' assms(3) show ?thesis
        by (auto simp add: Seal_mem_def sliceForAppend_def aead_Seal_def Let_def store_at_def
            load_def)
    next
      case False
      with assms(4) ln lp la Return no no' assms(3) show ?thesis
        by (auto simp add: Seal_mem_def sliceForAppend_def aead_Seal_def Let_def store_at_def
            load_def make_slice_def)
    qed
  qed
qed

lemma Encrypt_mem_refines:
  assumes "slice_array keyData < length m" and "slice_array plaintext < length m"
    and "\<forall>s. ad = Some s \<longrightarrow> slice_array s < length m"
  shows "(case Encrypt_mem X src m keyData plaintext ad of
            (m', Panic p) \<Rightarrow> Panic p
          | (m', Return (s, e)) \<Rightarrow> Return (load m' s, e))
         = Encrypt X src \<lparr>Data = load m keyData\<rparr> (load m plaintext) (map_option (load m) ad)"
proof (cases "NewX (load m keyData)")
  case (Inl e)
  then show ?thesis by (simp add: Encrypt_mem_def Encrypt_def)
next
  case (Inr k)
  have lp: "slice_len plaintext \<ge> length (load m plaintext)" by (simp add: load_def)
  obtain m1 r where n: "NewNonce_mem src m (int (slice_len plaintext)) (int Overhead) = (m1, r)"
    by (cases "NewNonce_mem src m (int (slice_len plaintext)) (int Overhead)")
  note R = NewNonce_mem_refines [OF n]
  have same: "NewNonce src (int (length (load m plaintext))) (int Overhead)
            = NewNonce src (int (slice_len plaintext)) (int Overhead)"
    by (simp add: NewNonce_def)
  show ?thesis
  proof (cases r)
    case (Panic p)
    with Inr n R same show ?thesis by (simp add: Encrypt_mem_def Encrypt_def)
  next
    case (Return se)
    obtain s e where se: "se = (s, e)" by (cases se)
    show ?thesis
    proof (cases e)
      case (Some err)
      with Inr n R same Return se show ?thesis by (auto simp add: Encrypt_mem_def Encrypt_def)
    next
      case None
      define z where "z = nat (int (slice_len plaintext) + int Overhead)"
      from R Return se None obtain nb
        where nn: "NewNonce src (int (slice_len plaintext)) (int Overhead) = Return (nb, None)"
        and s: "s = \<lparr>slice_array = length m, slice_off = 0, slice_len = 24, slice_cap = 24 + z\<rparr>"
        and m1: "m1 = m @ [nb @ replicate z 0]"
        unfolding z_def by auto
      from nn have lnb: "length nb = 24"
        using nonce_length by (simp add: NonceSizeX_def)
      define adS where "adS = (case ad of None \<Rightarrow> nil_slice | Some a \<Rightarrow> a)"
      have av: "slice_array adS < length m \<or> adS = nil_slice"
        using assms(3) by (auto simp add: adS_def split: option.splits)
      obtain m2 r2 where sm: "Seal_mem X m1 k s s plaintext adS = (m2, r2)"
        by (cases "Seal_mem X m1 k s s plaintext adS")
      note S = Seal_mem_refines [OF assms(2) av lnb sm [unfolded s m1]]
      have la: "load m adS = ad_bytes (map_option (load m) ad)"
        by (simp add: adS_def ad_bytes_def split: option.splits)
      have L: "(case Encrypt_mem X src m keyData plaintext ad of
            (m', Panic p) \<Rightarrow> Panic p
          | (m', Return (s, e)) \<Rightarrow> Return (load m' s, e))
          = (case r2 of Panic p \<Rightarrow> Panic p | Return s \<Rightarrow> Return (load m2 s, None))"
        using Inr n Return se None sm
        by (cases r2) (auto simp add: Encrypt_mem_def adS_def split: option.splits)
      have Rr: "Encrypt X src \<lparr>Data = load m keyData\<rparr> (load m plaintext) (map_option (load m) ad)
          = (case aead_Seal X k nb nb (load m plaintext) (load m adS) of
               Panic p \<Rightarrow> Panic p | Return c \<Rightarrow> Return (c, None))"
        using Inr nn same la
        by (auto simp add: Encrypt_def ad_bytes_def split: option.splits)
      show ?thesis
        unfolding L Rr S [symmetric] by (cases r2) simp_all
    qed
  qed
qed

text \<open>
  The model tells an output buffer that is new from one that is shared: sealing in place
  over the plaintext's own array, as \<open>Seal(plaintext[:0], ...)\<close> would, changes the plaintext.
\<close>

lemma Seal_mem_in_place_overwrites:
  "load (fst (Seal_mem Framed [[1, 2, 3, 0, 0]] k
            \<lparr>slice_array = 0, slice_off = 0, slice_len = 0, slice_cap = 5\<rparr> nil_slice
            \<lparr>slice_array = 0, slice_off = 0, slice_len = 3, slice_cap = 5\<rparr> nil_slice))
        \<lparr>slice_array = 0, slice_off = 0, slice_len = 3, slice_cap = 5\<rparr> = [0, 1, 2]"
  by (simp add: Seal_mem_def sliceForAppend_def Framed_def framed_Seal_def frame_def load_def
      nil_slice_def InexactOverlap_def AnyOverlap_def store_at_def Let_def)

lemma Encrypt_mem_sample:
  "Encrypt_mem XChaCha20Poly1305 (RandYields counting_stream)
     [replicate 32 1, bytes_of_string ''hello world'']
     \<lparr>slice_array = 0, slice_off = 0, slice_len = 32, slice_cap = 32\<rparr>
     \<lparr>slice_array = 1, slice_off = 0, slice_len = 11, slice_cap = 11\<rparr> None
   = ([replicate 32 1, bytes_of_string ''hello world'',
       map counting_stream [0..<24] @
         chacha20poly1305_seal (HChaCha20 (replicate 32 1) (map counting_stream [0..<16]))
           (replicate 4 0 @ map counting_stream [16..<24]) (bytes_of_string ''hello world'') []],
      Return (\<lparr>slice_array = 2, slice_off = 0, slice_len = 51, slice_cap = 51\<rparr>, None))"
proof -
  let ?m = "[replicate 32 1, bytes_of_string ''hello world''] :: memory"
  let ?nonce = "\<lparr>slice_array = 2, slice_off = 0, slice_len = 24, slice_cap = 51\<rparr>"
  let ?m1 = "?m @ [map counting_stream [0..<24] @ replicate 27 0]"
  have z: "fold (\<lambda>x total. total OR x) (map counting_stream [0..<24]) (0 :: byte) \<noteq> 0"
    using counting_stream_nonzero by (auto simp add: fold_OR_zero)
  have n: "NewNonce_mem (RandYields counting_stream) ?m 11 16 = (?m1, Return (?nonce, None))"
    using z
    by (simp add: NewNonce_mem_def make_slice_def nonceSize_def rand_Read_def store_at_def load_def
        Let_def word_greater_zero_iff replicate_add [symmetric] del: replicate_add)
  have s: "Seal_mem XChaCha20Poly1305 ?m1 (replicate 32 1) ?nonce ?nonce
       \<lparr>slice_array = 1, slice_off = 0, slice_len = 11, slice_cap = 11\<rparr> nil_slice
     = ([replicate 32 1, bytes_of_string ''hello world'',
       map counting_stream [0..<24] @
         chacha20poly1305_seal (HChaCha20 (replicate 32 1) (map counting_stream [0..<16]))
           (replicate 4 0 @ map counting_stream [16..<24]) (bytes_of_string ''hello world'') []],
      Return \<lparr>slice_array = 2, slice_off = 0, slice_len = 51, slice_cap = 51\<rparr>)"
    by (simp add: Seal_mem_def sliceForAppend_def load_def nil_slice_def XChaCha20Poly1305_def
        xchacha20poly1305_Seal_def NonceSizeX_def length_hello take_map drop_map
        InexactOverlap_def AnyOverlap_def store_at_def Let_def)
  have k: "NewX (load ?m \<lparr>slice_array = 0, slice_off = 0, slice_len = 32, slice_cap = 32\<rparr>)
      = Inr (replicate 32 1)"
    by (simp add: load_def NewX_def KeySize_def)
  have l: "int (slice_len \<lparr>slice_array = 1, slice_off = 0, slice_len = 11, slice_cap = 11\<rparr>) = 11"
    and v: "int Overhead = 16"
    by (simp_all add: Overhead_def)
  show ?thesis
    unfolding Encrypt_mem_def k l v n
    by (simp only: s sum.case prod.case outcome.case option.case)
qed

text \<open>
  C9. For every key, plaintext and associated data, in every memory and with every random
  source and cipher, \<open>Encrypt\<close> leaves every array that existed before the call as it was,
  the key's and the plaintext's among them; the ciphertext it returns lies in an array
  allocated during the call.
\<close>

theorem Encrypt_frame:
  "take (length m) (fst (Encrypt_mem X src m keyData plaintext ad)) = m \<and>
   (slice_array keyData < length m \<longrightarrow>
      load (fst (Encrypt_mem X src m keyData plaintext ad)) keyData = load m keyData) \<and>
   (slice_array plaintext < length m \<longrightarrow>
      load (fst (Encrypt_mem X src m keyData plaintext ad)) plaintext = load m plaintext) \<and>
   (snd (Encrypt_mem X src m keyData plaintext ad) = Return (encrypted, None) \<longrightarrow>
      length m \<le> slice_array encrypted)"
  using Encrypt_mem_frame [of m X src keyData plaintext ad encrypted]
  by (simp add: load_preserved)

theorem Encrypt_frame_witness:
  "slice_array \<lparr>slice_array = 0, slice_off = 0, slice_len = 32, slice_cap = 32\<rparr>
     < length [replicate 32 1, bytes_of_string ''hello world''] \<and>
   slice_array \<lparr>slice_array = 1, slice_off = 0, slice_len = 11, slice_cap = 11\<rparr>
     < length [replicate 32 1, bytes_of_string ''hello world''] \<and>
   snd (Encrypt_mem XChaCha20Poly1305 (RandYields counting_stream)
     [replicate 32 1, bytes_of_string ''hello world'']
     \<lparr>slice_array = 0, slice_off = 0, slice_len = 32, slice_cap = 32\<rparr>
     \<lparr>slice_array = 1, slice_off = 0, slice_len = 11, slice_cap = 11\<rparr> None)
    = Return (\<lparr>slice_array = 2, slice_off = 0, slice_len = 51, slice_cap = 51\<rparr>, None) \<and>
   take 2 (fst (Encrypt_mem XChaCha20Poly1305 (RandYields counting_stream)
     [replicate 32 1, bytes_of_string ''hello world'']
     \<lparr>slice_array = 0, slice_off = 0, slice_len = 32, slice_cap = 32\<rparr>
     \<lparr>slice_array = 1, slice_off = 0, slice_len = 11, slice_cap = 11\<rparr> None))
    = [replicate 32 1, bytes_of_string ''hello world'']"
  using Encrypt_frame [of "[replicate 32 1, bytes_of_string ''hello world'']" XChaCha20Poly1305
      "RandYields counting_stream" "\<lparr>slice_array = 0, slice_off = 0, slice_len = 32, slice_cap = 32\<rparr>"
      "\<lparr>slice_array = 1, slice_off = 0, slice_len = 11, slice_cap = 11\<rparr>" None
      "\<lparr>slice_array = 2, slice_off = 0, slice_len = 51, slice_cap = 51\<rparr>"]
  unfolding Encrypt_mem_sample
  by simp

end
